theory Spec2Isabelle
  imports Complex_Main "HOL-Library.AList" "HOL-Library.Sublist"
begin

section \<open>Python strings\<close>

text \<open>
  A Python \<open>str\<close> is a sequence of code points. It is modelled as a \<^typ>\<open>string\<close> whose
  characters are the code points below 256; the character classes below are those of
  CPython on that range (\<open>str.lower\<close>, \<open>str.isspace\<close>, and the classes \<open>\d\<close>, \<open>\s\<close>,
  \<open>\w\<close> of the \<open>re\<close> module on \<open>str\<close> patterns).
\<close>

definition code_point :: "char \<Rightarrow> nat" where
  "code_point c = of_char c"

definition is_digit :: "char \<Rightarrow> bool" where
  "is_digit c = (let n = code_point c in 48 \<le> n \<and> n \<le> 57)"

definition is_space :: "char \<Rightarrow> bool" where
  "is_space c = (let n = code_point c in
     (9 \<le> n \<and> n \<le> 13) \<or> (28 \<le> n \<and> n \<le> 32) \<or> n = 133 \<or> n = 160)"

definition is_upper :: "char \<Rightarrow> bool" where
  "is_upper c = (let n = code_point c in
     (65 \<le> n \<and> n \<le> 90) \<or> (192 \<le> n \<and> n \<le> 214) \<or> (216 \<le> n \<and> n \<le> 222))"

definition is_word :: "char \<Rightarrow> bool" where
  "is_word c = (let n = code_point c in
     (48 \<le> n \<and> n \<le> 57) \<or> (65 \<le> n \<and> n \<le> 90) \<or> n = 95 \<or> (97 \<le> n \<and> n \<le> 122) \<or>
     n = 170 \<or> n = 178 \<or> n = 179 \<or> n = 181 \<or> n = 185 \<or> n = 186 \<or>
     (188 \<le> n \<and> n \<le> 190) \<or> (192 \<le> n \<and> n \<le> 214) \<or> (216 \<le> n \<and> n \<le> 246) \<or>
     (248 \<le> n \<and> n \<le> 255))"

definition lower_char :: "char \<Rightarrow> char" where
  "lower_char c = (if is_upper c then char_of (code_point c + 32) else c)"

text \<open>\<open>s.lower()\<close>\<close>

definition lower :: "string \<Rightarrow> string" where
  "lower s = map lower_char s"

text \<open>\<open>s.strip()\<close>\<close>

definition strip :: "string \<Rightarrow> string" where
  "strip s = rev (dropWhile is_space (rev (dropWhile is_space s)))"

text \<open>\<open>w in t\<close> on strings: \<open>w\<close> occurs in \<open>t\<close> as a contiguous substring.\<close>

fun str_in :: "string \<Rightarrow> string \<Rightarrow> bool" where
  "str_in w [] = (w = [])"
| "str_in w (c # cs) = (prefix w (c # cs) \<or> str_in w cs)"

text \<open>\<open>s.replace(",", "")\<close>\<close>

definition strip_commas :: "string \<Rightarrow> string" where
  "strip_commas s = filter (\<lambda>c. c \<noteq> CHR '','') s"

text \<open>\<open>list(dict.fromkeys(xs))\<close>: the first occurrence of every element, in order.\<close>

fun fromkeys_acc :: "'a list \<Rightarrow> 'a list \<Rightarrow> 'a list" where
  "fromkeys_acc acc [] = acc"
| "fromkeys_acc acc (x # xs) = fromkeys_acc (if x \<in> set acc then acc else acc @ [x]) xs"

definition dict_fromkeys :: "'a list \<Rightarrow> 'a list" where
  "dict_fromkeys xs = fromkeys_acc [] xs"


section \<open>Regular expressions of the \<open>re\<close> module\<close>

text \<open>
  The patterns of the repository use literals, the classes \<open>\d\<close>, \<open>\s\<close> and \<open>[0-9,]\<close>,
  greedy bounded and unbounded repetition of a class, optional groups, alternation, the
  word boundary \<open>\b\<close> and one capturing group; all are compiled with \<open>re.I\<close>. The matcher
  is the backtracking one of \<open>re\<close>: \<open>rx_match\<close> lists, in the order in which backtracking
  tries them, the states in which a pattern can end when started in a state, and
  \<open>rx_search\<close> takes the first of them at the leftmost start position that has one.
\<close>

datatype cclass = Digit | Space | DigitComma

fun in_class :: "cclass \<Rightarrow> char \<Rightarrow> bool" where
  "in_class Digit c = is_digit c"
| "in_class Space c = is_space c"
| "in_class DigitComma c = (is_digit c \<or> c = CHR '','')"

datatype rx =
    Lit string
  | Cls cclass
  | Rep cclass nat "nat option"
  | Opt rx
  | Seq rx rx
  | Alt rx rx
  | WordB
  | Group rx

text \<open>
  A matching state: the character before the current position (if any), the text from
  the current position on, and the text captured by group 1 so far.
\<close>

record mstate =
  prev :: "char option"
  rest :: string
  cap :: "string option"

definition advance :: "nat \<Rightarrow> mstate \<Rightarrow> mstate" where
  "advance k st =
     (if k = 0 then st
      else st\<lparr>prev := Some (last (take k (rest st))), rest := drop k (rest st)\<rparr>)"

definition word_before :: "mstate \<Rightarrow> bool" where
  "word_before st = (case prev st of None \<Rightarrow> False | Some c \<Rightarrow> is_word c)"

definition word_after :: "mstate \<Rightarrow> bool" where
  "word_after st = (case rest st of [] \<Rightarrow> False | c # _ \<Rightarrow> is_word c)"

text \<open>Under \<open>re.I\<close> a literal matches a text of the same length that agrees up to case.\<close>

definition lit_matches :: "string \<Rightarrow> string \<Rightarrow> bool" where
  "lit_matches s text = (length s \<le> length text \<and> lower (take (length s) text) = lower s)"

fun rx_match :: "rx \<Rightarrow> mstate \<Rightarrow> mstate list" where
  "rx_match (Lit s) st = (if lit_matches s (rest st) then [advance (length s) st] else [])"
| "rx_match (Cls c) st =
     (case rest st of [] \<Rightarrow> [] | x # _ \<Rightarrow> if in_class c x then [advance 1 st] else [])"
| "rx_match (Rep c lo hi) st =
     (let n = length (takeWhile (in_class c) (rest st));
          m = (case hi of None \<Rightarrow> n | Some h \<Rightarrow> min n h)
      in map (\<lambda>k. advance k st) (rev [lo..<Suc m]))"
| "rx_match (Opt r) st = rx_match r st @ [st]"
| "rx_match (Seq r1 r2) st = concat (map (rx_match r2) (rx_match r1 st))"
| "rx_match (Alt r1 r2) st = rx_match r1 st @ rx_match r2 st"
| "rx_match WordB st = (if word_before st \<noteq> word_after st then [st] else [])"
| "rx_match (Group r) st =
     map (\<lambda>st'. st'\<lparr>cap := Some (take (length (rest st) - length (rest st')) (rest st))\<rparr>)
       (rx_match r st)"

text \<open>\<open>rx.search(text)\<close>: the match at the leftmost position where the pattern matches.\<close>

fun search_from :: "rx \<Rightarrow> char option \<Rightarrow> string \<Rightarrow> mstate option" where
  "search_from r p [] =
     (case rx_match r \<lparr>prev = p, rest = [], cap = None\<rparr> of [] \<Rightarrow> None | st # _ \<Rightarrow> Some st)"
| "search_from r p (c # cs) =
     (case rx_match r \<lparr>prev = p, rest = c # cs, cap = None\<rparr> of
        [] \<Rightarrow> search_from r (Some c) cs
      | st # _ \<Rightarrow> Some st)"

definition rx_search :: "rx \<Rightarrow> string \<Rightarrow> mstate option" where
  "rx_search r text = search_from r None text"

text \<open>\<open>m.group(1) if m else None\<close>\<close>

definition first_group :: "rx \<Rightarrow> string \<Rightarrow> string option" where
  "first_group r text = (case rx_search r text of None \<Rightarrow> None | Some st \<Rightarrow> cap st)"

text \<open>Sequencing of several patterns.\<close>

fun seqs :: "rx list \<Rightarrow> rx" where
  "seqs [] = Lit []"
| "seqs [r] = r"
| "seqs (r # rs) = Seq r (seqs rs)"

fun alts :: "rx list \<Rightarrow> rx" where
  "alts [] = Lit []"
| "alts [r] = r"
| "alts (r # rs) = Alt r (alts rs)"


section \<open>Values of attribute and filter dictionaries\<close>

text \<open>
  The dictionaries \<open>attrs\<close> and \<open>filters\<close> (\<open>Dict[str, Any]\<close>) hold strings and lists of
  strings. A dictionary is an association list in insertion order; \<open>d[k] = v\<close> is
  \<^const>\<open>AList.update\<close> and \<open>d.get(k)\<close> is \<^const>\<open>map_of\<close>.
\<close>

datatype pyval = PStr string | PList "string list"

type_synonym pydict = "(string \<times> pyval) list"

text \<open>Truthiness of an optional string: neither \<open>None\<close> nor empty.\<close>

fun truthy :: "string option \<Rightarrow> bool" where
  "truthy None = False"
| "truthy (Some s) = (s \<noteq> [])"

text \<open>\<open>a or b\<close> on optional strings.\<close>

definition py_or :: "string option \<Rightarrow> string option \<Rightarrow> string option" where
  "py_or a b = (if truthy a then a else b)"

text \<open>\<open>if v: d[k] = v\<close> for an optional string \<open>v\<close>.\<close>

fun set_str :: "string \<Rightarrow> string option \<Rightarrow> pydict \<Rightarrow> pydict" where
  "set_str k None d = d"
| "set_str k (Some v) d = (if v \<noteq> [] then AList.update k (PStr v) d else d)"

text \<open>\<open>if xs: d[k] = list(dict.fromkeys(xs))\<close> for a list \<open>xs\<close>.\<close>

definition set_list :: "string \<Rightarrow> string list \<Rightarrow> pydict \<Rightarrow> pydict" where
  "set_list k xs d = (if xs \<noteq> [] then AList.update k (PList (dict_fromkeys xs)) d else d)"


section \<open>services/utils.py: attributes of a listing title\<close>

definition utils_rx_num :: "string \<Rightarrow> rx" where
  "utils_rx_num unit =
     seqs [WordB,
           Group (Seq (Rep Digit 1 None) (Opt (Seq (Lit ''.'') (Rep Digit 1 None)))),
           Rep Space 0 None, Lit unit, WordB]"

definition utils_RX_RAM_GB :: rx where
  "utils_RX_RAM_GB =
     seqs [WordB, Group (Rep Digit 1 (Some 2)), Rep Space 0 None, Lit ''GB'',
           Opt (Seq (Rep Space 0 None) (Lit ''RAM'')), WordB]"

definition utils_RX_STORAGE_GB :: rx where
  "utils_RX_STORAGE_GB =
     seqs [WordB, Group (Rep Digit 2 (Some 4)), Rep Space 0 None, Lit ''GB'', WordB]"

definition utils_RX_STORAGE_TB :: rx where
  "utils_RX_STORAGE_TB =
     seqs [WordB, Group (Seq (Cls Digit) (Opt (Seq (Lit ''.'') (Cls Digit)))),
           Rep Space 0 None, Lit ''TB'', WordB]"

definition utils_RX_BATTERY_MAH :: rx where
  "utils_RX_BATTERY_MAH =
     seqs [WordB, Group (Rep Digit 3 (Some 5)), Rep Space 0 None, Lit ''mAh'', WordB]"

definition utils_RX_REFRESH_HZ :: rx where
  "utils_RX_REFRESH_HZ =
     seqs [WordB,
           Group (alts [Lit ''60'', Lit ''90'', Lit ''120'', Lit ''144'', Lit ''165'', Lit ''240'']),
           Rep Space 0 None, Lit ''Hz'', WordB]"

definition utils_RX_SCREEN_IN :: rx where
  "utils_RX_SCREEN_IN =
     seqs [WordB, Group (Seq (Rep Digit 2 (Some 2)) (Opt (Seq (Lit ''.'') (Cls Digit)))),
           Rep Space 0 None, Lit ''inch'', Opt (Lit ''es''), WordB]"

definition utils_RX_SIZE_UK :: rx where
  "utils_RX_SIZE_UK =
     seqs [WordB, Lit ''uk'', Rep Space 0 None, Group (Rep Digit 1 (Some 2)), WordB]"

definition utils_RX_SIZE_US :: rx where
  "utils_RX_SIZE_US =
     seqs [WordB, Lit ''us'', Rep Space 0 None, Group (Rep Digit 1 (Some 2)), WordB]"

definition utils_RX_SIZE_EU :: rx where
  "utils_RX_SIZE_EU =
     seqs [WordB, Lit ''eu'', Rep Space 0 None, Group (Rep Digit 1 (Some 2)), WordB]"

definition utils_RX_CAP_L :: rx where
  "utils_RX_CAP_L = utils_rx_num ''l''"

definition utils_RX_WATT :: rx where
  "utils_RX_WATT = utils_rx_num ''w''"

definition utils_RX_LITRE :: rx where
  "utils_RX_LITRE =
     seqs [WordB, Group (Rep Digit 1 (Some 3)), Seq (Opt (Lit ''.'')) (Rep Digit 0 None),
           Rep Space 0 None,
           alts [Lit ''L'', Lit ''Litre'', Lit ''Liters'', Lit ''Litres''], WordB]"

definition CPU_TOKENS :: "string list" where
  "CPU_TOKENS =
     [''i3'', ''i5'', ''i7'', ''i9'',
      ''ryzen 3'', ''ryzen 5'', ''ryzen 7'', ''ryzen 9'',
      ''m1'', ''m2'', ''m3'', ''m4'',
      ''celeron'', ''pentium'', ''mediatek'', ''snapdragon'', ''exynos'', ''dimensity'',
      ''helio'']"

definition PANEL_TOKENS :: "string list" where
  "PANEL_TOKENS =
     [''oled'', ''amoled'', ''ips'', ''tn'', ''va'', ''fhd'', ''full hd'', ''qhd'', ''uhd'',
      ''4k'', ''touch'']"

definition MATERIAL_TOKENS :: "string list" where
  "MATERIAL_TOKENS =
     [''leather'', ''synthetic'', ''mesh'', ''cotton'', ''polyester'', ''nylon'', ''canvas'',
      ''suede'', ''stainless'', ''stainless steel'', ''steel'', ''cast iron'', ''aluminium'',
      ''aluminum'', ''ceramic'', ''glass'', ''bamboo'', ''wood'', ''nonstick'', ''non-stick'']"

definition COLOR_TOKENS :: "string list" where
  "COLOR_TOKENS =
     [''black'', ''white'', ''silver'', ''grey'', ''gray'', ''red'', ''blue'', ''green'',
      ''yellow'', ''pink'', ''purple'', ''orange'', ''gold'', ''rose'', ''beige'', ''brown'',
      ''maroon'', ''navy'', ''teal'']"

text \<open>\<open>_first(rx, text)\<close>\<close>

definition first :: "rx \<Rightarrow> string \<Rightarrow> string option" where
  "first r text = first_group r text"

text \<open>\<open>_tokens_present(text, vocab)\<close>\<close>

definition tokens_present :: "string \<Rightarrow> string list \<Rightarrow> string list" where
  "tokens_present text vocab = (let t = lower text in filter (\<lambda>v. str_in v t) vocab)"

definition parse_generic_attrs_from_title :: "string \<Rightarrow> pydict" where
  "parse_generic_attrs_from_title title =
     (let t = lower title;
          attrs = [];
          ram = first utils_RX_RAM_GB t;
          attrs = set_str ''ram_gb'' ram attrs;
          storage_tb = first utils_RX_STORAGE_TB t;
          storage_gb = (if truthy storage_tb then None else first utils_RX_STORAGE_GB t);
          attrs = set_str ''storage_tb'' storage_tb attrs;
          attrs = set_str ''storage_gb'' storage_gb attrs;
          battery = first utils_RX_BATTERY_MAH t;
          attrs = set_str ''battery_mah'' battery attrs;
          refresh = first utils_RX_REFRESH_HZ t;
          attrs = set_str ''refresh_hz'' refresh attrs;
          screen = first utils_RX_SCREEN_IN t;
          attrs = set_str ''screen_in'' screen attrs;
          size_uk = first utils_RX_SIZE_UK t;
          size_us = first utils_RX_SIZE_US t;
          size_eu = first utils_RX_SIZE_EU t;
          attrs = set_str ''size_uk'' size_uk attrs;
          attrs = set_str ''size_us'' size_us attrs;
          attrs = set_str ''size_eu'' size_eu attrs;
          lit = py_or (first utils_RX_LITRE t) (first utils_RX_CAP_L t);
          attrs = set_str ''capacity_l'' lit attrs;
          watts = first utils_RX_WATT t;
          attrs = set_str ''watt'' watts attrs;
          cpus = tokens_present t CPU_TOKENS;
          attrs = set_list ''cpu'' cpus attrs;
          panels = tokens_present t PANEL_TOKENS;
          attrs = set_list ''panel'' panels attrs;
          materials = tokens_present t MATERIAL_TOKENS;
          attrs = set_list ''material'' materials attrs;
          colors = tokens_present t COLOR_TOKENS;
          attrs = set_list ''color'' colors attrs
      in attrs)"


section \<open>Numbers read from text\<close>

datatype error = OverflowError | ValueError | TypeError | AttributeError

text \<open>The value of a string of decimal digits.\<close>

definition digit_val :: "char \<Rightarrow> nat" where
  "digit_val c = code_point c - 48"

definition nat_of_digits :: "string \<Rightarrow> nat" where
  "nat_of_digits s = foldl (\<lambda>n c. 10 * n + digit_val c) 0 s"

definition all_digits :: "string \<Rightarrow> bool" where
  "all_digits s = (s \<noteq> [] \<and> list_all is_digit s)"

text \<open>
  \<open>int(s)\<close> for a string of decimal digits. \<open>maxd\<close> is the interpreter's
  \<open>sys.int_max_str_digits\<close> (4300 by default where the limit exists, 0 for no limit):
  a longer digit string raises ValueError. Only digit strings reach this call in the
  repository (the regular expressions capture nothing else); on every other string the
  model answers ValueError, which is not Python's full grammar of integer literals.
\<close>

definition py_int :: "nat \<Rightarrow> string \<Rightarrow> error + int" where
  "py_int maxd s =
     (if \<not> all_digits s then Inl ValueError
      else if 0 < maxd \<and> maxd < length s then Inl ValueError
      else Inr (int (nat_of_digits s)))"

text \<open>
  Non-negative IEEE 754 binary64 values with an integral value are natural numbers;
  \<open>None\<close> is \<open>inf\<close>. \<open>round_double n\<close> is the double nearest to \<open>n\<close> (ties to even),
  which is what \<open>float(s)\<close> returns for a digit string and what a multiplication returns
  for its exact product.
\<close>

fun bit_length :: "nat \<Rightarrow> nat" where
  "bit_length n = (if n = 0 then 0 else Suc (bit_length (n div 2)))"

declare bit_length.simps [simp del]

definition round_double :: "nat \<Rightarrow> nat option" where
  "round_double n =
     (let b = bit_length n in
      if b \<le> 53 then Some n
      else
        let e = b - 53;
            q = n div 2 ^ e;
            r = n mod 2 ^ e;
            h = 2 ^ (e - 1);
            q' = (if h < r \<or> (r = h \<and> odd q) then q + 1 else q);
            v = q' * 2 ^ e
        in if 2 ^ 1024 \<le> v then None else Some v)"

text \<open>
  \<open>float(s)\<close> for a string of decimal digits (again the only strings that reach it; the
  model answers ValueError on all others).
\<close>

definition py_float_digits :: "string \<Rightarrow> error + nat option" where
  "py_float_digits s = (if all_digits s then Inr (round_double (nat_of_digits s)) else Inl ValueError)"

text \<open>\<open>x * 1000\<close> on such a float.\<close>

definition float_times :: "nat option \<Rightarrow> nat \<Rightarrow> nat option" where
  "float_times x k = (case x of None \<Rightarrow> None | Some n \<Rightarrow> round_double (n * k))"

text \<open>\<open>int(x)\<close> on such a float: \<open>int(inf)\<close> raises OverflowError.\<close>

definition int_of_float :: "nat option \<Rightarrow> error + int" where
  "int_of_float x = (case x of None \<Rightarrow> Inl OverflowError | Some n \<Rightarrow> Inr (int n))"


section \<open>agents/parser\_agent.py: constraints of a query\<close>

definition CATEGORY_KEYWORDS :: "(string \<times> string list) list" where
  "CATEGORY_KEYWORDS =
     [(''electronics'',
        [''laptop'', ''notebook'', ''ultrabook'', ''macbook'',
         ''mobile'', ''smartphone'', ''phone'', ''earbuds'', ''headphones'', ''camera'',
         ''tablet'', ''ipad'', ''monitor'', ''tv'', ''television'', ''router'', ''printer'',
         ''smartwatch'', ''wearable'', ''ssd'', ''hdd'', ''pendrive'', ''power bank'']),
      (''fashion'',
        [''shoes'', ''sneakers'', ''sandals'', ''heels'', ''loafers'',
         ''t-shirt'', ''shirt'', ''jeans'', ''kurta'', ''saree'', ''hoodie'', ''jacket'',
         ''backpack'', ''bag'', ''duffle'', ''wallet'', ''belt'']),
      (''home-kitchen'',
        [''utensils'', ''cookware'', ''pan'', ''kadhai'', ''frying pan'', ''pressure cooker'',
         ''bottle'', ''flask'', ''mug'', ''tiffin'', ''lunch box'', ''container'', ''plate'',
         ''nonstick'', ''non-stick'', ''induction'', ''stainless'', ''cutlery'']),
      (''appliances'',
        [''fridge'', ''refrigerator'', ''washing machine'', ''ac'', ''air conditioner'',
         ''microwave'', ''oven'', ''chimney'', ''cooler'', ''geyser'', ''water heater'']),
      (''sports'',
        [''football'', ''cricket bat'', ''bat'', ''ball'', ''badminton'', ''racket'',
         ''dumbbell'', ''treadmill'', ''yoga'', ''gym bag'']),
      (''beauty'',
        [''shampoo'', ''conditioner'', ''lotion'', ''cream'', ''facewash'', ''makeup'',
         ''lipstick'', ''perfume'', ''deodorant'', ''serum''])]"

definition BRANDS :: "string list" where
  "BRANDS =
     [''apple'', ''samsung'', ''oneplus'', ''xiaomi'', ''redmi'', ''realme'', ''oppo'', ''vivo'',
      ''dell'', ''hp'', ''lenovo'', ''asus'', ''acer'', ''msi'', ''lg'', ''sony'', ''boat'',
      ''jbl'', ''noise'',
      ''canon'', ''nikon'', ''sandisk'', ''seagate'', ''wd'', ''western digital'',
      ''nike'', ''adidas'', ''puma'', ''reebok'', ''bata'', ''woodland'', ''zara'', ''h&m'',
      ''levis'',
      ''allen solly'', ''us polo'', ''wildcraft'', ''american tourister'', ''skybag'', ''safari'',
      ''prestige'', ''pigeon'', ''hawkins'', ''milton'', ''cello'', ''borosil'', ''butterfly'',
      ''vinod'',
      ''whirlpool'', ''bosch'', ''ifb'', ''voltas'', ''panasonic'', ''hitachi'', ''haier'',
      ''godrej'']"

definition COLORS :: "string list" where
  "COLORS =
     [''black'', ''white'', ''silver'', ''grey'', ''gray'', ''red'', ''blue'', ''green'',
      ''yellow'', ''pink'', ''purple'', ''orange'', ''gold'', ''rose'', ''beige'', ''brown'',
      ''maroon'', ''navy'', ''teal'']"

definition MATERIALS :: "string list" where
  "MATERIALS =
     [''leather'', ''synthetic'', ''mesh'', ''cotton'', ''polyester'', ''nylon'', ''canvas'',
      ''suede'', ''stainless'', ''stainless steel'', ''steel'', ''cast iron'', ''aluminium'',
      ''aluminum'', ''ceramic'', ''glass'', ''bamboo'', ''wood'']"

text \<open>The tokens of the loop that ends the keyword bag.\<close>

definition BONUS_TOKENS :: "string list" where
  "BONUS_TOKENS =
     [''gaming'', ''lightweight'', ''waterproof'', ''nonstick'', ''non-stick'', ''induction'',
      ''wireless'', ''bluetooth'', ''noise cancelling'', ''anc'', ''fast charging'',
      ''camera'', ''5g'', ''4g'', ''dual sim'', ''backlit'', ''fingerprint'']"

definition parser_rx_num :: "string \<Rightarrow> rx" where
  "parser_rx_num unit =
     seqs [WordB,
           Group (Seq (Rep Digit 1 None) (Opt (Seq (Lit ''.'') (Rep Digit 1 None)))),
           Rep Space 0 None, Lit unit, WordB]"

definition RX_UNDER_K :: rx where
  "RX_UNDER_K =
     seqs [Lit ''under'', Rep Space 0 None, Group (Rep Digit 1 None), Rep Space 0 None,
           Lit ''k'', WordB]"

definition RX_BUDGET_ANY :: rx where
  "RX_BUDGET_ANY =
     seqs [alts [Lit ''under'', Lit ''below'', Lit ''less than'', Lit ''<=''],
           Rep Space 0 None, Group (Seq (Cls Digit) (Rep DigitComma 0 None))]"

definition parser_RX_RAM_GB :: rx where
  "parser_RX_RAM_GB = parser_rx_num ''gb''"

definition parser_RX_STORAGE_GB :: rx where
  "parser_RX_STORAGE_GB = parser_rx_num ''gb''"

definition parser_RX_STORAGE_TB :: rx where
  "parser_RX_STORAGE_TB = parser_rx_num ''tb''"

definition parser_RX_BATTERY_MAH :: rx where
  "parser_RX_BATTERY_MAH =
     seqs [WordB, Group (Rep Digit 3 (Some 5)), Rep Space 0 None, Lit ''mAh'', WordB]"

definition parser_RX_CAP_L :: rx where
  "parser_RX_CAP_L = parser_rx_num ''l''"

definition parser_RX_SIZE_UK :: rx where
  "parser_RX_SIZE_UK =
     seqs [WordB, Lit ''uk'', Rep Space 0 None, Group (Rep Digit 1 (Some 2)), WordB]"

definition parser_RX_SIZE_US :: rx where
  "parser_RX_SIZE_US =
     seqs [WordB, Lit ''us'', Rep Space 0 None, Group (Rep Digit 1 (Some 2)), WordB]"

definition parser_RX_SIZE_EU :: rx where
  "parser_RX_SIZE_EU =
     seqs [WordB, Lit ''eu'', Rep Space 0 None, Group (Rep Digit 1 (Some 2)), WordB]"

text \<open>\<open>_first_match(rx, text)\<close>\<close>

definition first_match :: "rx \<Rightarrow> string \<Rightarrow> string option" where
  "first_match r text = first_group r text"

text \<open>\<open>_contains_any(text, words)\<close>\<close>

definition contains_any :: "string \<Rightarrow> string list \<Rightarrow> string list" where
  "contains_any text words = filter (\<lambda>w. str_in w text) words"

text \<open>
  A key of the constraints dictionary is absent or holds a value; \<open>d.get(k)\<close> answers
  \<open>None\<close> for an absent key. The key \<open>"budget"\<close> is the field \<open>c_budget\<close>, and so on.
\<close>

datatype 'a entry = Absent | Present 'a

record constraints =
  c_budget :: "int option entry"
  c_category :: "string option entry"
  c_filters :: "pydict entry"
  c_keywords :: "string list entry"

text \<open>The budget block of \<open>parse_constraints\<close>, on the lower-cased query.\<close>

definition parse_budget :: "nat \<Rightarrow> string \<Rightarrow> error + int option" where
  "parse_budget maxd q =
     (case rx_search RX_UNDER_K q of
        Some m \<Rightarrow>
          (case cap m of
             None \<Rightarrow> Inl TypeError
           | Some g \<Rightarrow>
               (case py_float_digits g of
                  Inl e \<Rightarrow> Inl e
                | Inr x \<Rightarrow>
                    (case int_of_float (float_times x 1000) of
                       Inl e \<Rightarrow> Inl e
                     | Inr b \<Rightarrow> Inr (Some b))))
      | None \<Rightarrow>
          (case rx_search RX_BUDGET_ANY q of
             Some n \<Rightarrow>
               (case cap n of
                  None \<Rightarrow> Inl AttributeError
                | Some g \<Rightarrow>
                    (case py_int maxd (strip_commas g) of
                       Inl e \<Rightarrow> Inl e
                     | Inr b \<Rightarrow> Inr (Some b)))
           | None \<Rightarrow> Inr None))"

text \<open>The category block: the first category, in declaration order, with a keyword in the query.\<close>

definition infer_category :: "string \<Rightarrow> string option" where
  "infer_category q =
     (case find (\<lambda>(cat, kws). list_ex (\<lambda>k. str_in k q) kws) CATEGORY_KEYWORDS of
        None \<Rightarrow> None
      | Some (cat, kws) \<Rightarrow> Some cat)"

definition parse_constraints :: "nat \<Rightarrow> string \<Rightarrow> error + constraints" where
  "parse_constraints maxd query =
     (let q = lower query in
      case parse_budget maxd q of
        Inl e \<Rightarrow> Inl e
      | Inr budget \<Rightarrow>
          (let category = infer_category q;
               brands = contains_any q BRANDS;
               colors = contains_any q COLORS;
               materials = contains_any q MATERIALS;
               size_uk = first_match parser_RX_SIZE_UK q;
               size_us = first_match parser_RX_SIZE_US q;
               size_eu = first_match parser_RX_SIZE_EU q;
               capacity_l = first_match parser_RX_CAP_L q;
               ram_gb = (if str_in ''gb'' q then first_match parser_RX_RAM_GB q else None);
               storage_tb = (if str_in ''tb'' q then first_match parser_RX_STORAGE_TB q else None);
               storage_gb = (if str_in ''gb'' q \<and> \<not> truthy ram_gb
                             then first_match parser_RX_STORAGE_GB q else None);
               battery_mah = first_match parser_RX_BATTERY_MAH q;
               keyword_bag = [];
               keyword_bag = keyword_bag @ brands;
               keyword_bag = keyword_bag @ colors;
               keyword_bag = keyword_bag @ materials;
               keyword_bag = keyword_bag @ filter (\<lambda>token. str_in token q) BONUS_TOKENS;
               filters = [];
               filters = set_list ''brand'' brands filters;
               filters = set_list ''color'' colors filters;
               filters = set_list ''material'' materials filters;
               filters = set_str ''size_uk'' size_uk filters;
               filters = set_str ''size_us'' size_us filters;
               filters = set_str ''size_eu'' size_eu filters;
               filters = set_str ''capacity_l'' capacity_l filters;
               filters = set_str ''ram_gb'' ram_gb filters;
               filters = set_str ''storage_tb'' storage_tb filters;
               filters = set_str ''storage_gb'' storage_gb filters;
               filters = set_str ''battery_mah'' battery_mah filters
           in Inr \<lparr>c_budget = Present budget,
                   c_category = Present category,
                   c_filters = Present filters,
                   c_keywords = Present keyword_bag\<rparr>))"


section \<open>schemas.py: the normalized product\<close>

record product =
  title :: string
  price :: "real option"
  currency :: string
  rating :: "real option"
  review_count :: "int option"
  url :: string
  image :: "string option"
  source :: string
  category :: "string option"
  attrs :: pydict
  raw :: pydict

text \<open>
  The fields \<open>price\<close> and \<open>rating\<close> hold finite floats. A finite float is modelled as
  the real number it denotes, and arithmetic on floats as arithmetic on real numbers:
  rounding is not modelled. What is modelled is where the arithmetic raises: an \<open>int\<close>
  that meets a float in an operation is converted to a float first, and the conversion
  raises OverflowError when the integer is outside the range of a double, that is, when
  its absolute value is at least \<open>2^1024 - 2^970\<close>.
\<close>

definition fits_float :: "int \<Rightarrow> bool" where
  "fits_float n = (\<bar>n\<bar> < 2 ^ 1024 - 2 ^ 970)"

definition float_of_int :: "int \<Rightarrow> error + real" where
  "float_of_int n = (if fits_float n then Inr (real_of_int n) else Inl OverflowError)"

text \<open>
  What the repository takes from outside is a parameter of the model:
  \<open>fuzz.token_set_ratio\<close> of rapidfuzz, \<open>math.tanh\<close> on floats (which is not the real
  hyperbolic tangent: it reaches exactly 1.0), \<open>str\<close> applied to a list, and \<open>float\<close>
  applied to a string (\<open>None\<close> where it raises, and also where it returns \<open>inf\<close> or
  \<open>nan\<close>, which the one comparison made with the result treats as the exception handler
  does).
\<close>

record pylib =
  token_set_ratio :: "string \<Rightarrow> string \<Rightarrow> real"
  math_tanh :: "real \<Rightarrow> real"
  str_of_list :: "string list \<Rightarrow> string"
  float_of_str :: "string \<Rightarrow> real option"

text \<open>\<open>similar(a, b)\<close> of services/utils.py\<close>

definition similar :: "pylib \<Rightarrow> string \<Rightarrow> string \<Rightarrow> real" where
  "similar L a b = token_set_ratio L a b"


section \<open>services/scoring.py\<close>

text \<open>Truthiness of \<open>d.get(k)\<close>: neither \<open>None\<close>, nor an empty string, nor an empty list.\<close>

fun val_truthy :: "pyval option \<Rightarrow> bool" where
  "val_truthy None = False"
| "val_truthy (Some (PStr s)) = (s \<noteq> [])"
| "val_truthy (Some (PList xs)) = (xs \<noteq> [])"

text \<open>\<open>a or b\<close> on such values.\<close>

definition val_or :: "pyval option \<Rightarrow> pyval option \<Rightarrow> pyval option" where
  "val_or a b = (if val_truthy a then a else b)"

text \<open>\<open>_normalize_str(x)\<close> on a string\<close>

definition norm_str :: "string \<Rightarrow> string" where
  "norm_str s = lower (strip s)"

text \<open>\<open>_normalize_str(x)\<close> on the result of \<open>d.get(k)\<close>\<close>

fun normalize_str :: "pylib \<Rightarrow> pyval option \<Rightarrow> string" where
  "normalize_str L None = []"
| "normalize_str L (Some (PStr s)) = norm_str s"
| "normalize_str L (Some (PList xs)) = norm_str (str_of_list L xs)"

text \<open>\<open>_any_overlap(arr1, arr2)\<close>\<close>

definition any_overlap :: "string list \<Rightarrow> string list \<Rightarrow> bool" where
  "any_overlap arr1 arr2 =
     (if arr1 = [] \<or> arr2 = [] then False
      else list_ex (\<lambda>a. norm_str a \<in> set (map norm_str arr2)) arr1)"

text \<open>\<open>isinstance(v, list) and _any_overlap(v, arr)\<close>\<close>

fun list_overlap :: "pyval option \<Rightarrow> string list \<Rightarrow> bool" where
  "list_overlap (Some (PList xs)) arr = any_overlap xs arr"
| "list_overlap _ arr = False"

text \<open>\<open>float(v)\<close> inside the \<open>try\<close> block: \<open>None\<close> where it raises.\<close>

fun py_float :: "pylib \<Rightarrow> pyval \<Rightarrow> real option" where
  "py_float L (PStr s) = float_of_str L s"
| "py_float L (PList xs) = None"

text \<open>
  The blocks of \<open>attribute_match_score\<close> update the pair \<open>(score, max_pts)\<close>.
\<close>

definition brand_block :: "product \<Rightarrow> pydict \<Rightarrow> pydict \<Rightarrow> real \<times> real \<Rightarrow> real \<times> real" where
  "brand_block p flt attrs' acc =
     (case acc of (score, max_pts) \<Rightarrow>
        (case map_of flt ''brand'' of
           Some (PList brands) \<Rightarrow>
             (let max_pts = max_pts + 1.0;
                  prod_brands = val_or (val_or (map_of attrs' ''brand'') (map_of attrs' ''maker''))
                                  (Some (PList []))
              in if list_overlap prod_brands brands then (score + 1.0, max_pts)
                 else
                   (let name = lower (title p)
                    in if list_ex (\<lambda>b. str_in (lower b) name) brands
                       then (score + 0.8, max_pts) else (score, max_pts)))
         | _ \<Rightarrow> (score, max_pts)))"

definition overlap_block ::
    "string \<Rightarrow> real \<Rightarrow> pydict \<Rightarrow> pydict \<Rightarrow> real \<times> real \<Rightarrow> real \<times> real" where
  "overlap_block key pts flt attrs' acc =
     (case acc of (score, max_pts) \<Rightarrow>
        (case map_of flt key of
           Some (PList wanted) \<Rightarrow>
             (let max_pts = max_pts + pts
              in if list_overlap (map_of attrs' key) wanted then (score + pts, max_pts)
                 else (score, max_pts))
         | _ \<Rightarrow> (score, max_pts)))"

definition size_block ::
    "pylib \<Rightarrow> pydict \<Rightarrow> pydict \<Rightarrow> real \<times> real \<Rightarrow> string \<times> real \<Rightarrow> real \<times> real" where
  "size_block L flt attrs' acc kp =
     (case acc of (score, max_pts) \<Rightarrow>
        (case kp of (key, pts) \<Rightarrow>
           (let want = normalize_str L (map_of flt key);
                got = normalize_str L (map_of attrs' key)
            in if want \<noteq> [] then
                 (let max_pts = max_pts + pts
                  in if want \<noteq> [] \<and> got \<noteq> [] \<and> want = got then (score + pts, max_pts)
                     else (score, max_pts))
               else (score, max_pts))))"

definition capacity_block :: "pylib \<Rightarrow> pydict \<Rightarrow> pydict \<Rightarrow> real \<times> real \<Rightarrow> real \<times> real" where
  "capacity_block L flt attrs' acc =
     (case acc of (score, max_pts) \<Rightarrow>
        (let cap_want = map_of flt ''capacity_l'';
             cap_got = map_of attrs' ''capacity_l''
         in if val_truthy cap_want then
              (let max_pts = max_pts + 0.6
               in case cap_want of
                    None \<Rightarrow> (score, max_pts)
                  | Some w \<Rightarrow>
                      (case py_float L w of
                         None \<Rightarrow> (score, max_pts)
                       | Some want \<Rightarrow>
                           (case cap_got of
                              None \<Rightarrow> (score, max_pts)
                            | Some g \<Rightarrow>
                                (case py_float L g of
                                   None \<Rightarrow> (score, max_pts)
                                 | Some got \<Rightarrow>
                                     if \<bar>got - want\<bar> \<le> 0.5 then (score + 0.6, max_pts)
                                     else (score, max_pts)))))
            else (score, max_pts)))"

definition equal_block ::
    "pylib \<Rightarrow> string \<Rightarrow> pydict \<Rightarrow> pydict \<Rightarrow> real \<times> real \<Rightarrow> real \<times> real" where
  "equal_block L key flt attrs' acc =
     (case acc of (score, max_pts) \<Rightarrow>
        (if val_truthy (map_of flt key) then
           (let max_pts = max_pts + 0.6
            in if normalize_str L (map_of flt key) = normalize_str L (map_of attrs' key)
               then (score + 0.6, max_pts) else (score, max_pts))
         else (score, max_pts)))"

text \<open>\<open>not constraints\<close>: the dictionary has no key.\<close>

definition dict_empty :: "constraints \<Rightarrow> bool" where
  "dict_empty c =
     (c_budget c = Absent \<and> c_category c = Absent \<and> c_filters c = Absent \<and> c_keywords c = Absent)"

text \<open>\<open>constraints.get("filters") or {}\<close>\<close>

definition get_filters :: "constraints \<Rightarrow> pydict" where
  "get_filters c = (case c_filters c of Absent \<Rightarrow> [] | Present f \<Rightarrow> f)"

definition attribute_points :: "pylib \<Rightarrow> product \<Rightarrow> pydict \<Rightarrow> real \<times> real" where
  "attribute_points L p flt =
     (let attrs' = attrs p;
          acc = (0.0, 0.0);
          acc = brand_block p flt attrs' acc;
          acc = overlap_block ''color'' 0.5 flt attrs' acc;
          acc = overlap_block ''material'' 0.6 flt attrs' acc;
          acc = foldl (size_block L flt attrs') acc
                  [(''size_uk'', 0.5), (''size_us'', 0.5), (''size_eu'', 0.5)];
          acc = capacity_block L flt attrs' acc;
          acc = equal_block L ''ram_gb'' flt attrs' acc;
          acc = equal_block L ''storage_tb'' flt attrs' acc;
          acc = equal_block L ''storage_gb'' flt attrs' acc;
          acc = equal_block L ''battery_mah'' flt attrs' acc
      in acc)"

definition attribute_match_score :: "pylib \<Rightarrow> product \<Rightarrow> constraints \<Rightarrow> real" where
  "attribute_match_score L p c =
     (if dict_empty c then 0.0
      else
        let flt = get_filters c in
        if flt = [] then 0.0
        else
          (case attribute_points L p flt of (score, max_pts) \<Rightarrow>
             if max_pts \<le> 0 then 0.0 else max 0.0 (min 1.0 (score / max_pts))))"

text \<open>\<open>constraints.get("budget")\<close> and \<open>constraints.get("keywords", [])\<close>\<close>

definition get_budget :: "constraints \<Rightarrow> int option" where
  "get_budget c = (case c_budget c of Absent \<Rightarrow> None | Present b \<Rightarrow> b)"

definition get_keywords :: "constraints \<Rightarrow> string list" where
  "get_keywords c = (case c_keywords c of Absent \<Rightarrow> [] | Present ks \<Rightarrow> ks)"

text \<open>
  The price block of \<open>score_product\<close>; \<open>p.price and budget\<close> holds when both are present
  and neither is zero. The comparison \<open>p.price <= budget\<close> of a float with an \<open>int\<close> is
  exact and never raises; the division by \<open>max(budget, 1)\<close> and the subtraction of
  \<open>budget\<close> convert the integer to a float, in the order in which the source evaluates
  them.
\<close>

definition price_score :: "real option \<Rightarrow> int option \<Rightarrow> error + real" where
  "price_score pr bd =
     (case pr of
        None \<Rightarrow> Inr 0.45
      | Some x \<Rightarrow>
          (case bd of
             None \<Rightarrow> Inr 0.45
           | Some b \<Rightarrow>
               if x \<noteq> 0 \<and> b \<noteq> 0 then
                 (if x \<le> real_of_int b
                  then (case float_of_int (max b 1) of
                          Inl e \<Rightarrow> Inl e
                        | Inr m \<Rightarrow> Inr (max 0.25 (1.0 - (x / m) * 0.6)))
                  else (case float_of_int b of
                          Inl e \<Rightarrow> Inl e
                        | Inr fb \<Rightarrow>
                            (case float_of_int (max b 1) of
                               Inl e \<Rightarrow> Inl e
                             | Inr m \<Rightarrow> Inr (max 0.05 (1.0 - (x - fb) / m * 1.2)))))
               else Inr 0.45))"

text \<open>\<open>math.tanh((p.review_count or 0) / 600.0)\<close>: the count is converted to a float.\<close>

definition review_boost :: "pylib \<Rightarrow> int option \<Rightarrow> error + real" where
  "review_boost L rc =
     (case float_of_int (case rc of None \<Rightarrow> 0 | Some n \<Rightarrow> n) of
        Inl e \<Rightarrow> Inl e
      | Inr r \<Rightarrow> Inr (math_tanh L (r / 600.0)))"

text \<open>The keyword loop of \<open>score_product\<close>.\<close>

definition kw_bonus :: "string list \<Rightarrow> string \<Rightarrow> real" where
  "kw_bonus kws title_l =
     min 0.15 (foldl (\<lambda>b kw. if str_in kw title_l then b + 0.03 else b) 0.0 kws)"

text \<open>
  \<open>score_product\<close> returns the score, or raises what the price block or the review
  block raises.
\<close>

definition score_product ::
    "pylib \<Rightarrow> product \<Rightarrow> constraints \<Rightarrow> string \<Rightarrow> error + real" where
  "score_product L p c query =
     (let bd = get_budget c;
          kws = get_keywords c;
          sim = similar L (lower (title p)) (lower query) / 100.0
      in case price_score (price p) bd of
           Inl e \<Rightarrow> Inl e
         | Inr ps \<Rightarrow>
             (let rating_score = (case rating p of None \<Rightarrow> 0 | Some r \<Rightarrow> r) / 5.0
              in case review_boost L (review_count p) of
                   Inl e \<Rightarrow> Inl e
                 | Inr rb \<Rightarrow>
                     (let attr_score = attribute_match_score L p c;
                          bonus = kw_bonus kws (lower (title p));
                          total = 0.30 * sim + 0.30 * ps + 0.18 * rating_score + 0.10 * rb +
                                  0.12 * attr_score + bonus
                      in Inr (max 0.0 (min 1.6 total)))))"

text \<open>The loop of \<open>dedup\<close>, with the list \<open>out\<close> built so far.\<close>

fun dedup_loop :: "pylib \<Rightarrow> product list \<Rightarrow> product list \<Rightarrow> product list" where
  "dedup_loop L out [] = out"
| "dedup_loop L out (p # ps) =
     dedup_loop L
       (if \<not> list_ex (\<lambda>q. similar L (title p) (title q) > 88) out then out @ [p] else out) ps"

definition dedup :: "pylib \<Rightarrow> product list \<Rightarrow> product list" where
  "dedup L products = dedup_loop L [] products"






section \<open>pipelines/search\_pipeline.py and graph/nodes.py\<close>

text \<open>The shared graph state; \<open>s_constraints\<close> is \<open>None\<close> when the key is absent.\<close>

record graph_state =
  s_query :: string
  s_constraints :: "constraints option"
  s_sites :: "string list"
  s_k :: int
  s_raw_results :: "product list"
  s_ranked :: "product list"
  s_summary :: string

text \<open>The state that \<open>run_pipeline\<close> hands to the graph, whose entry point is the parser node.\<close>

definition init_state ::
    "string \<Rightarrow> int option \<Rightarrow> string list \<Rightarrow> int \<Rightarrow> string option \<Rightarrow> graph_state" where
  "init_state query max_price sites k category_hint =
     (let constraints = \<lparr>c_budget = Present max_price, c_category = Absent,
                          c_filters = Absent, c_keywords = Present []\<rparr>;
          constraints = (if truthy category_hint
                         then constraints\<lparr>c_category := Present category_hint\<rparr>
                         else constraints)
      in \<lparr>s_query = query, s_constraints = Some constraints, s_sites = sites, s_k = k,
          s_raw_results = [], s_ranked = [], s_summary = []\<rparr>)"

text \<open>\<open>state.get("constraints") or parse_constraints(state["query"])\<close>\<close>

definition parser_node :: "nat \<Rightarrow> graph_state \<Rightarrow> error + graph_state" where
  "parser_node maxd state =
     (case s_constraints state of
        Some c \<Rightarrow>
          if \<not> dict_empty c then Inr (state\<lparr>s_constraints := Some c\<rparr>)
          else (case parse_constraints maxd (s_query state) of
                  Inl e \<Rightarrow> Inl e
                | Inr c' \<Rightarrow> Inr (state\<lparr>s_constraints := Some c'\<rparr>))
      | None \<Rightarrow>
          (case parse_constraints maxd (s_query state) of
             Inl e \<Rightarrow> Inl e
           | Inr c' \<Rightarrow> Inr (state\<lparr>s_constraints := Some c'\<rparr>)))"


section \<open>Definitions used in the statements and proofs\<close>

text \<open>
  \<open>kept_from L out xs\<close>: no element of \<open>xs\<close> is similar above the threshold to an element
  of \<open>out\<close> or to an earlier element of \<open>xs\<close>.
\<close>

fun kept_from :: "pylib \<Rightarrow> product list \<Rightarrow> product list \<Rightarrow> bool" where
  "kept_from L out [] = True"
| "kept_from L out (p # ps) =
     (\<not> list_ex (\<lambda>q. similar L (title p) (title q) > 88) out \<and> kept_from L (out @ [p]) ps)"

text \<open>The score of a listing whose scoring returns (0 stands in where it raises).\<close>

definition score_val :: "pylib \<Rightarrow> constraints \<Rightarrow> string \<Rightarrow> product \<Rightarrow> real" where
  "score_val L c query p = (case score_product L p c query of Inl e \<Rightarrow> 0 | Inr s \<Rightarrow> s)"



text \<open>\<open>p.review_count or 0\<close>\<close>

definition review_count_or_0 :: "product \<Rightarrow> int" where
  "review_count_or_0 p = (case review_count p of None \<Rightarrow> 0 | Some n \<Rightarrow> n)"

text \<open>
  The integers that scoring converts to floats are within the range of a float: the
  review count of the listing and the budget of the constraints, where there is one.
\<close>

definition float_inputs :: "product \<Rightarrow> constraints \<Rightarrow> bool" where
  "float_inputs p c =
     (fits_float (review_count_or_0 p) \<and>
      (case get_budget c of None \<Rightarrow> True | Some b \<Rightarrow> fits_float b))"

text \<open>
  The price fitness in the words of the specification: the clamp to \<open>[0.25, 1]\<close> under
  budget, the floor \<open>0.05\<close> over budget, \<open>0.45\<close> when price or budget is unknown.
\<close>

definition spec_price_fitness :: "real option \<Rightarrow> int option \<Rightarrow> real" where
  "spec_price_fitness pr bd =
     (case pr of
        None \<Rightarrow> 0.45
      | Some x \<Rightarrow>
          (case bd of
             None \<Rightarrow> 0.45
           | Some b \<Rightarrow>
               if x \<le> real_of_int b
               then max 0.25 (min 1.0 (1.0 - (x / real_of_int b) * 0.6))
               else max 0.05 (1.0 - ((x - real_of_int b) / real_of_int b) * 1.2)))"

text \<open>The filter keys that \<open>attribute_match_score\<close> reads.\<close>

definition applicable_keys :: "string list" where
  "applicable_keys =
     [''brand'', ''color'', ''material'', ''size_uk'', ''size_us'', ''size_eu'', ''capacity_l'',
      ''ram_gb'', ''storage_tb'', ''storage_gb'', ''battery_mah'']"

text \<open>Sample inputs: the listings of the end-to-end scenario of the specification.\<close>

definition sample_lib :: pylib where
  "sample_lib =
     \<lparr>token_set_ratio = (\<lambda>a b. if a = b then 100 else 0),
      math_tanh = tanh,
      str_of_list = (\<lambda>xs. concat xs),
      float_of_str = (\<lambda>s. None)\<rparr>"

definition sample_product :: "string \<Rightarrow> real \<Rightarrow> real \<Rightarrow> int \<Rightarrow> string \<Rightarrow> product" where
  "sample_product t pr rt n src =
     \<lparr>title = t, price = Some pr, currency = ''INR'', rating = Some rt, review_count = Some n,
      url = ''https://example.com'', image = None, source = src, category = None,
      attrs = parse_generic_attrs_from_title t, raw = []\<rparr>"

definition sample_products :: "product list" where
  "sample_products =
     [sample_product ''Nike Waterproof Running Shoes UK 9'' 2500 4.3 800 ''A'',
      sample_product ''Nike Waterproof Running Shoes UK 9'' 2600 4.1 50 ''B'',
      sample_product ''Leather Formal Shoes'' 1800 4.5 200 ''A'']"

text \<open>A listing whose page shows a review count beyond the range of a float.\<close>

definition huge_count_product :: product where
  "huge_count_product = sample_product ''Leather Formal Shoes'' 1800 4.5 (2 ^ 1024) ''A''"

definition sample_constraints :: constraints where
  "sample_constraints =
     \<lparr>c_budget = Present (Some 3000), c_category = Present (Some ''fashion''),
      c_filters = Present [(''warranty'', PStr ''1 year'')],
      c_keywords = Present [''waterproof'']\<rparr>"


text \<open>Whether a pattern contains the capturing group.\<close>

fun has_group :: "rx \<Rightarrow> bool" where
  "has_group (Group r) = True"
| "has_group (Opt r) = has_group r"
| "has_group (Seq r1 r2) = (has_group r1 \<or> has_group r2)"
| "has_group (Alt r1 r2) = (has_group r1 \<or> has_group r2)"
| "has_group _ = False"

text \<open>The budget that \<open>parse_constraints\<close> returns, or the exception it raises.\<close>

definition parsed_budget :: "nat \<Rightarrow> string \<Rightarrow> error + int option" where
  "parsed_budget maxd query =
     (case parse_constraints maxd query of Inl e \<Rightarrow> Inl e | Inr c \<Rightarrow> Inr (get_budget c))"

text \<open>All tokens that the keyword bag can hold, in the order in which it is filled.\<close>

definition ALL_TOKENS :: "string list" where
  "ALL_TOKENS = BRANDS @ COLORS @ MATERIALS @ BONUS_TOKENS"


section \<open>Properties of the scorer, the deduplicator and the ranker\<close>

lemma dedup_loop_kept: "kept_from L out xs \<Longrightarrow> dedup_loop L out xs = out @ xs"
  by (induction xs arbitrary: out) auto

lemma dedup_loop_result: "\<exists>zs. dedup_loop L out ps = out @ zs \<and> kept_from L out zs"
proof (induction ps arbitrary: out)
  case Nil
  have "kept_from L out []" by simp
  then show ?case by force
next
  case (Cons p ps)
  show ?case
  proof (cases "list_ex (\<lambda>q. similar L (title p) (title q) > 88) out")
    case True
    then show ?thesis using Cons.IH [of out] by simp
  next
    case False
    from Cons.IH [of "out @ [p]"] obtain zs
      where zs: "dedup_loop L (out @ [p]) ps = (out @ [p]) @ zs" "kept_from L (out @ [p]) zs"
      by blast
    have "dedup_loop L out (p # ps) = out @ (p # zs)" using False zs(1) by simp
    moreover have "kept_from L out (p # zs)" using False zs(2) by simp
    ultimately show ?thesis by blast
  qed
qed

lemma sample_dedup:
  "dedup sample_lib sample_products =
     [sample_product ''Nike Waterproof Running Shoes UK 9'' 2500 4.3 800 ''A'',
      sample_product ''Leather Formal Shoes'' 1800 4.5 200 ''A'']"
  by (simp add: dedup_def sample_products_def sample_lib_def similar_def sample_product_def)

text \<open>
  C6. \<open>dedup\<close> is idempotent: deduplicating a deduplicated list changes nothing,
  whatever the similarity function is.
\<close>

theorem dedup_idempotent: "dedup L (dedup L products) = dedup L products"
proof -
  obtain zs where zs: "dedup_loop L [] products = [] @ zs" "kept_from L [] zs"
    using dedup_loop_result [of L "[]" products] by blast
  then show ?thesis using dedup_loop_kept [of L "[]" zs] by (simp add: dedup_def)
qed

theorem dedup_idempotent_witness:
  "dedup sample_lib (dedup sample_lib sample_products) =
     [sample_product ''Nike Waterproof Running Shoes UK 9'' 2500 4.3 800 ''A'',
      sample_product ''Leather Formal Shoes'' 1800 4.5 200 ''A'']"
  using dedup_idempotent [of sample_lib sample_products] by (simp add: sample_dedup)

lemma fits_float_small: "\<bar>n\<bar> \<le> 2 ^ 1023 \<Longrightarrow> fits_float n"
proof -
  have "(2::int) ^ 1024 - 2 ^ 970 = 2 ^ 1023 + (2 ^ 1023 - 2 ^ 970)" by simp
  moreover have "(2::int) ^ 970 < 2 ^ 1023" by (rule power_strict_increasing) simp_all
  ultimately have "(2::int) ^ 1023 < 2 ^ 1024 - 2 ^ 970" by linarith
  then show "\<bar>n\<bar> \<le> 2 ^ 1023 \<Longrightarrow> fits_float n" by (simp add: fits_float_def)
qed

lemma not_fits_float_huge: "\<not> fits_float (2 ^ 1024)"
  by (simp add: fits_float_def)

lemma fits_float_max: "fits_float b \<Longrightarrow> fits_float (max b 1)"
proof -
  have "fits_float 1" by (rule fits_float_small) simp
  then show "fits_float b \<Longrightarrow> fits_float (max b 1)" by (simp add: max_def)
qed

lemma price_score_error: "price_score pr bd = Inl e \<Longrightarrow> e = OverflowError"
  by (auto simp: price_score_def float_of_int_def split: option.splits if_splits)

lemma price_score_no_error:
  assumes "case bd of None \<Rightarrow> True | Some b \<Rightarrow> fits_float b"
  shows "price_score pr bd \<noteq> Inl e"
proof (cases bd)
  case None
  then show ?thesis by (simp add: price_score_def split: option.splits)
next
  case (Some b)
  then have "fits_float b" using assms by simp
  then show ?thesis
    using Some fits_float_max [of b]
    by (simp add: price_score_def float_of_int_def split: option.splits)
qed

lemma price_score_returns:
  assumes "case bd of None \<Rightarrow> True | Some b \<Rightarrow> fits_float b"
  shows "\<exists>s. price_score pr bd = Inr s"
  using price_score_no_error [OF assms, of pr] by (cases "price_score pr bd") auto

lemma review_boost_cases:
  "review_boost L rc =
     (if fits_float (case rc of None \<Rightarrow> 0 | Some n \<Rightarrow> n)
      then Inr (math_tanh L (real_of_int (case rc of None \<Rightarrow> 0 | Some n \<Rightarrow> n) / 600))
      else Inl OverflowError)"
  by (simp add: review_boost_def float_of_int_def)


lemma score_product_returns:
  assumes "float_inputs p c"
  shows "\<exists>s. score_product L p c query = Inr s"
proof -
  from assms have "case get_budget c of None \<Rightarrow> True | Some b \<Rightarrow> fits_float b"
    by (simp add: float_inputs_def)
  then obtain ps where "price_score (price p) (get_budget c) = Inr ps"
    using price_score_returns by blast
  moreover have "fits_float (case review_count p of None \<Rightarrow> 0 | Some n \<Rightarrow> n)"
    using assms by (simp add: float_inputs_def review_count_or_0_def)
  ultimately show ?thesis
    by (simp add: score_product_def Let_def review_boost_cases)
qed

lemma score_product_raises:
  assumes "\<not> fits_float (review_count_or_0 p)"
  shows "score_product L p c query = Inl OverflowError"
proof -
  have "review_boost L (review_count p) = Inl OverflowError"
    using assms by (simp add: review_boost_cases review_count_or_0_def)
  then show ?thesis
    by (auto simp: score_product_def Let_def split: sum.splits dest: price_score_error)
qed

lemma score_product_range:
  assumes "score_product L p c query = Inr s"
  shows "0 \<le> s \<and> s \<le> 1.6"
proof -
  have clamp: "\<And>t::real. 0 \<le> max 0.0 (min 1.6 t) \<and> max 0.0 (min 1.6 t) \<le> 1.6"
    by (auto simp: max_def min_def)
  from assms obtain t :: real where "s = max 0.0 (min 1.6 t)"
    by (auto simp: score_product_def Let_def split: sum.splits)
  then show ?thesis using clamp by simp
qed

lemma sample_float_inputs: "float_inputs (hd sample_products) sample_constraints"
proof -
  have "fits_float 800" "fits_float 3000" by (rule fits_float_small, simp)+
  then show ?thesis
    by (simp add: float_inputs_def review_count_or_0_def sample_products_def sample_product_def
        sample_constraints_def get_budget_def)
qed

text \<open>
  C4, as stated, fails: a listing whose review count is beyond the range of a float makes
  \<open>score_product\<close> raise OverflowError instead of returning a score.
\<close>

theorem score_product_overflow_counterexample:
  "score_product sample_lib huge_count_product sample_constraints
     ''waterproof running shoes under 3000'' = Inl OverflowError"
proof -
  have "\<not> fits_float (review_count_or_0 huge_count_product)"
    using not_fits_float_huge
    by (simp add: review_count_or_0_def huge_count_product_def sample_product_def)
  then show ?thesis by (rule score_product_raises)
qed

text \<open>
  C4, amended. Whenever \<open>score_product\<close> returns, its value lies between 0.0 and 1.6. It
  returns whenever the review count and the budget (where present) are within the range
  of a float, and it raises OverflowError whenever the review count is not.
\<close>

theorem score_product_bounded:
  "(\<forall>s. score_product L p c query = Inr s \<longrightarrow> 0 \<le> s \<and> s \<le> 1.6) \<and>
   (float_inputs p c \<longrightarrow> (\<exists>s. score_product L p c query = Inr s)) \<and>
   (\<not> fits_float (review_count_or_0 p) \<longrightarrow> score_product L p c query = Inl OverflowError)"
  using score_product_range score_product_returns score_product_raises by blast

theorem score_product_bounded_witness:
  "float_inputs (hd sample_products) sample_constraints \<and>
   score_product sample_lib (hd sample_products) sample_constraints
       ''waterproof running shoes under 3000'' =
     Inr (score_val sample_lib sample_constraints ''waterproof running shoes under 3000''
            (hd sample_products)) \<and>
   0 \<le> score_val sample_lib sample_constraints ''waterproof running shoes under 3000''
         (hd sample_products) \<and>
   score_val sample_lib sample_constraints ''waterproof running shoes under 3000''
         (hd sample_products) \<le> 1.6"
proof -
  from sample_float_inputs
    score_product_bounded [of sample_lib "hd sample_products" sample_constraints
        "''waterproof running shoes under 3000''"]
  obtain s where s: "score_product sample_lib (hd sample_products) sample_constraints
       ''waterproof running shoes under 3000'' = Inr s" "0 \<le> s" "s \<le> 1.6"
    by blast
  then have "score_val sample_lib sample_constraints ''waterproof running shoes under 3000''
         (hd sample_products) = s"
    by (simp add: score_val_def)
  then show ?thesis using s sample_float_inputs by simp
qed

lemma attribute_points_none:
  assumes "\<forall>k \<in> set applicable_keys. map_of flt k = None"
  shows "attribute_points L p flt = (0, 0)"
proof -
  have k: "map_of flt ''brand'' = None" "map_of flt ''color'' = None"
    "map_of flt ''material'' = None" "map_of flt ''size_uk'' = None"
    "map_of flt ''size_us'' = None" "map_of flt ''size_eu'' = None"
    "map_of flt ''capacity_l'' = None" "map_of flt ''ram_gb'' = None"
    "map_of flt ''storage_tb'' = None" "map_of flt ''storage_gb'' = None"
    "map_of flt ''battery_mah'' = None"
    using assms by (simp_all add: applicable_keys_def)
  show ?thesis
    by (simp add: attribute_points_def brand_block_def overlap_block_def size_block_def
        capacity_block_def equal_block_def k)
qed

text \<open>
  C7. When the filters are empty, or hold none of the keys that the function reads,
  \<open>attribute_match_score\<close> returns exactly 0.0; and for every input its result lies in
  \<open>[0, 1]\<close>. The function is total on listings and constraints of the modelled types:
  no path of it raises.
\<close>

theorem attribute_match_score_range:
  "(get_filters c = [] \<or> (\<forall>k \<in> set applicable_keys. map_of (get_filters c) k = None)
      \<longrightarrow> attribute_match_score L p c = 0) \<and>
   0 \<le> attribute_match_score L p c \<and> attribute_match_score L p c \<le> 1"
proof (intro conjI impI)
  assume "get_filters c = [] \<or> (\<forall>k \<in> set applicable_keys. map_of (get_filters c) k = None)"
  then have "\<forall>k \<in> set applicable_keys. map_of (get_filters c) k = None" by auto
  then have "attribute_points L p (get_filters c) = (0, 0)" by (rule attribute_points_none)
  then show "attribute_match_score L p c = 0"
    by (simp add: attribute_match_score_def Let_def)
next
  show "0 \<le> attribute_match_score L p c"
    by (simp add: attribute_match_score_def Let_def split: prod.splits)
next
  show "attribute_match_score L p c \<le> 1"
    by (simp add: attribute_match_score_def Let_def split: prod.splits)
qed

theorem attribute_match_score_range_witness:
  "get_filters sample_constraints = [(''warranty'', PStr ''1 year'')] \<and>
   attribute_match_score sample_lib (hd sample_products) sample_constraints = 0 \<and>
   attribute_match_score sample_lib (hd sample_products)
     (sample_constraints\<lparr>c_filters := Present []\<rparr>) = 0"
proof -
  have f: "get_filters sample_constraints = [(''warranty'', PStr ''1 year'')]"
    by (simp add: get_filters_def sample_constraints_def)
  have "\<forall>k \<in> set applicable_keys. map_of (get_filters sample_constraints) k = None"
    by (simp add: f applicable_keys_def)
  moreover have "get_filters (sample_constraints\<lparr>c_filters := Present []\<rparr>) = []"
    by (simp add: get_filters_def)
  ultimately show ?thesis
    using f attribute_match_score_range [of sample_constraints sample_lib "hd sample_products"]
      attribute_match_score_range
        [of "sample_constraints\<lparr>c_filters := Present []\<rparr>" sample_lib "hd sample_products"]
    by blast
qed

text \<open>
  C5, as stated, fails: a listing whose price is 0 has a known price, under any positive
  budget, and the specification's formula gives 1.0 for it, but the code takes the
  zero for a missing price and answers 0.45.
\<close>

theorem price_score_zero_price_counterexample:
  "price_score (Some 0) (Some 100) = Inr 0.45 \<and> spec_price_fitness (Some 0) (Some 100) = 1"
  by (simp add: price_score_def spec_price_fitness_def)

text \<open>
  C5, amended. For a positive price and a positive budget within the range of a float,
  the price fitness is the specification's: the clamp of \<open>1 - (price/budget) * 0.6\<close> to
  \<open>[0.25, 1]\<close> when the price is within budget, and
  \<open>max 0.05 (1 - ((price - budget)/budget) * 1.2)\<close> when it is not. For a positive price
  within a budget beyond the range of a float, the price block raises OverflowError. When
  the price or the budget is absent or zero, the price fitness is 0.45.
\<close>

theorem price_score_amended:
  "(0 < x \<and> 0 < b \<and> fits_float b \<longrightarrow>
      price_score (Some x) (Some b) = Inr (spec_price_fitness (Some x) (Some b))) \<and>
   (0 < x \<and> x \<le> real_of_int b \<and> \<not> fits_float b \<longrightarrow>
      price_score (Some x) (Some b) = Inl OverflowError) \<and>
   (pr = None \<or> pr = Some 0 \<or> bd = None \<or> bd = Some 0 \<longrightarrow> price_score pr bd = Inr 0.45)"
proof (intro conjI impI)
  assume h: "0 < x \<and> 0 < b \<and> fits_float b"
  then have mb: "max b 1 = b" by simp
  have "x / real_of_int b \<ge> 0" using h by simp
  then have "1.0 - (x / real_of_int b) * 0.6 \<le> (1.0::real)" by simp
  then have "min 1.0 (1.0 - (x / real_of_int b) * 0.6) = 1.0 - (x / real_of_int b) * 0.6" by simp
  then show "price_score (Some x) (Some b) = Inr (spec_price_fitness (Some x) (Some b))"
    using h mb by (simp add: price_score_def spec_price_fitness_def float_of_int_def)
next
  assume h: "0 < x \<and> x \<le> real_of_int b \<and> \<not> fits_float b"
  then have "0 < real_of_int b" by linarith
  then have "0 < b" by simp
  then have "max b 1 = b" by simp
  then show "price_score (Some x) (Some b) = Inl OverflowError"
    using h \<open>0 < b\<close> by (simp add: price_score_def float_of_int_def)
next
  assume "pr = None \<or> pr = Some 0 \<or> bd = None \<or> bd = Some 0"
  then show "price_score pr bd = Inr 0.45"
    by (auto simp: price_score_def split: option.splits)
qed

theorem price_score_amended_witness:
  "price_score (Some 2500) (Some 3000) = Inr 0.5 \<and>
   price_score (Some 3300) (Some 3000) = Inr 0.88 \<and>
   price_score (Some 100) (Some (2 ^ 1024)) = Inl OverflowError \<and>
   price_score None (Some 3000) = Inr 0.45"
proof -
  have f: "fits_float 3000" by (rule fits_float_small) simp
  have "price_score (Some 2500) (Some 3000) = Inr (spec_price_fitness (Some 2500) (Some 3000))"
    using price_score_amended [of 2500 3000] f by simp
  moreover have "price_score (Some 3300) (Some 3000) = Inr (spec_price_fitness (Some 3300) (Some 3000))"
    using price_score_amended [of 3300 3000] f by simp
  moreover have "price_score (Some 100) (Some (2 ^ 1024)) = Inl OverflowError"
    using price_score_amended [of 100 "2 ^ 1024"] not_fits_float_huge by simp
  moreover have "price_score None (Some 3000) = Inr 0.45"
    using price_score_amended [of 1 1 None "Some 3000"] by simp
  ultimately show ?thesis by (simp add: spec_price_fitness_def)
qed














section \<open>Properties of the regular expressions\<close>

lemma rest_advance [simp]: "rest (advance k st) = drop k (rest st)"
  by (simp add: advance_def)

lemma cap_advance [simp]: "cap (advance k st) = cap st"
  by (simp add: advance_def)

lemma rx_match_length:
  "st' \<in> set (rx_match r st) \<Longrightarrow> length (rest st') \<le> length (rest st)"
proof (induction r arbitrary: st st')
  case (Seq r1 r2)
  then obtain m where "m \<in> set (rx_match r1 st)" "st' \<in> set (rx_match r2 m)" by auto
  then show ?case using Seq.IH(1) [of m st] Seq.IH(2) [of st' m] by linarith
qed (auto split: if_splits list.splits simp: Let_def)

lemma rx_match_cap:
  "\<not> has_group r \<Longrightarrow> st' \<in> set (rx_match r st) \<Longrightarrow> cap st' = cap st"
proof (induction r arbitrary: st st')
  case (Seq r1 r2)
  then obtain m where "m \<in> set (rx_match r1 st)" "st' \<in> set (rx_match r2 m)" by auto
  then show ?case using Seq.IH(1) [of m st] Seq.IH(2) [of st' m] Seq.prems(1) by simp
qed (auto split: if_splits list.splits simp: Let_def)

lemma search_from_match:
  "search_from r p tx = Some st \<Longrightarrow> \<exists>st0. st \<in> set (rx_match r st0)"
proof (induction tx arbitrary: p)
  case Nil
  then show ?case by (auto split: list.splits) (metis list.set_intros(1))
next
  case (Cons c cs)
  show ?case
  proof (cases "rx_match r \<lparr>prev = p, rest = c # cs, cap = None\<rparr>")
    assume "rx_match r \<lparr>prev = p, rest = c # cs, cap = None\<rparr> = []"
    then show ?thesis using Cons.IH [of "Some c"] Cons.prems by simp
  next
    fix a ms
    assume ms: "rx_match r \<lparr>prev = p, rest = c # cs, cap = None\<rparr> = a # ms"
    then have "st = a" using Cons.prems by simp
    then have "st \<in> set (rx_match r \<lparr>prev = p, rest = c # cs, cap = None\<rparr>)" using ms by simp
    then show ?thesis by blast
  qed
qed

lemma rx_match_Seq_iff:
  "st' \<in> set (rx_match (Seq r1 r2) st) \<longleftrightarrow> (\<exists>m \<in> set (rx_match r1 st). st' \<in> set (rx_match r2 m))"
  by auto

lemma rx_match_Rep_iff:
  "st' \<in> set (rx_match (Rep c lo hi) st) \<longleftrightarrow>
     (\<exists>k. lo \<le> k \<and> k \<le> length (takeWhile (in_class c) (rest st)) \<and>
          (case hi of None \<Rightarrow> True | Some h \<Rightarrow> k \<le> h) \<and> st' = advance k st)"
proof -
  define n where "n = length (takeWhile (in_class c) (rest st))"
  define m where "m = (case hi of None \<Rightarrow> n | Some h \<Rightarrow> min n h)"
  have "set (rx_match (Rep c lo hi) st) = (\<lambda>k. advance k st) ` {lo..<Suc m}"
    unfolding m_def n_def by (simp add: Let_def del: upt_Suc)
  moreover have "\<And>k. k < Suc m \<longleftrightarrow> k \<le> n \<and> (case hi of None \<Rightarrow> True | Some h \<Rightarrow> k \<le> h)"
    unfolding m_def by (cases hi) auto
  ultimately show ?thesis unfolding n_def [symmetric] by (auto simp del: rx_match.simps)
qed

lemma rx_match_Group_iff:
  "st' \<in> set (rx_match (Group r) st) \<longleftrightarrow>
     (\<exists>m \<in> set (rx_match r st).
        st' = m\<lparr>cap := Some (take (length (rest st) - length (rest m)) (rest st))\<rparr>)"
  by auto

lemma rx_match_Cls_iff:
  "st' \<in> set (rx_match (Cls c) st) \<longleftrightarrow>
     (\<exists>x xs. rest st = x # xs \<and> in_class c x \<and> st' = advance 1 st)"
  by (cases "rest st") auto

lemma rx_match_SeqE:
  assumes "st' \<in> set (rx_match (Seq r1 r2) st)"
  obtains m where "m \<in> set (rx_match r1 st)" and "st' \<in> set (rx_match r2 m)"
  using assms by auto

lemma rx_match_GroupE:
  assumes "st' \<in> set (rx_match (Group r) st)"
  obtains m where "m \<in> set (rx_match r st)"
    and "st' = m\<lparr>cap := Some (take (length (rest st) - length (rest m)) (rest st))\<rparr>"
  using assms by auto

lemma rx_match_RepE:
  assumes "st' \<in> set (rx_match (Rep c lo hi) st)"
  obtains k where "lo \<le> k" and "k \<le> length (takeWhile (in_class c) (rest st))"
    and "st' = advance k st"
proof -
  from assms have "\<exists>k. lo \<le> k \<and> k \<le> length (takeWhile (in_class c) (rest st)) \<and>
          (case hi of None \<Rightarrow> True | Some h \<Rightarrow> k \<le> h) \<and> st' = advance k st"
    by (rule iffD1 [OF rx_match_Rep_iff])
  then show ?thesis using that by fast
qed

lemma rx_match_ClsE:
  assumes "st' \<in> set (rx_match (Cls c) st)"
  obtains x xs where "rest st = x # xs" and "in_class c x" and "st' = advance 1 st"
proof -
  from assms have "\<exists>x xs. rest st = x # xs \<and> in_class c x \<and> st' = advance 1 st"
    by (rule iffD1 [OF rx_match_Cls_iff])
  then show ?thesis using that by fast
qed

lemma group_rep_cap:
  assumes "st' \<in> set (rx_match (Group (Rep c lo hi)) st)"
  shows "\<exists>k. lo \<le> k \<and> k \<le> length (takeWhile (in_class c) (rest st)) \<and>
             cap st' = Some (take k (rest st))"
proof -
  let ?n = "length (takeWhile (in_class c) (rest st))"
  have n: "?n \<le> length (rest st)" by (rule length_takeWhile_le)
  from assms obtain m where m: "m \<in> set (rx_match (Rep c lo hi) st)"
    and st': "st' = m\<lparr>cap := Some (take (length (rest st) - length (rest m)) (rest st))\<rparr>"
    by (rule rx_match_GroupE)
  from m obtain k where k: "lo \<le> k" "k \<le> ?n" and mk: "m = advance k st"
    by (rule rx_match_RepE)
  have "length (rest st) - length (rest m) = k" using k n mk by simp
  then have "cap st' = Some (take k (rest st))" using st' by simp
  then show ?thesis using k by blast
qed

lemma take_takeWhile_all:
  "k \<le> length (takeWhile P xs) \<Longrightarrow> list_all P (take k xs)"
proof (induction xs arbitrary: k)
  case Nil
  then show ?case by simp
next
  case (Cons x xs)
  then show ?case by (cases k) (auto split: if_splits)
qed

lemma group_digits_cap:
  assumes "st' \<in> set (rx_match (Group (Rep Digit 1 hi)) st)"
  shows "\<exists>g. cap st' = Some g \<and> all_digits g"
proof -
  from group_rep_cap [OF assms] obtain k where k: "1 \<le> k" "k \<le> length (takeWhile (in_class Digit) (rest st))"
    "cap st' = Some (take k (rest st))" by blast
  have "list_all (in_class Digit) (take k (rest st))" using k(2) by (rule take_takeWhile_all)
  then have "list_all is_digit (take k (rest st))" by (simp add: list_all_iff)
  moreover have "length (takeWhile (in_class Digit) (rest st)) \<le> length (rest st)" by (rule length_takeWhile_le)
  then have "take k (rest st) \<noteq> []" using k by auto
  ultimately show ?thesis using k(3) by (simp add: all_digits_def)
qed

lemma rx_searchE:
  assumes "rx_search r q = Some m"
  obtains st0 where "m \<in> set (rx_match r st0)"
  using assms unfolding rx_search_def by (blast dest: search_from_match)

lemma under_k_cap:
  assumes "rx_search RX_UNDER_K q = Some m"
  shows "\<exists>g. cap m = Some g \<and> all_digits g"
proof -
  let ?R = "Seq (Rep Space 0 None) (Seq (Lit ''k'') WordB)"
  from assms obtain st0 where "m \<in> set (rx_match RX_UNDER_K st0)" by (rule rx_searchE)
  then have "m \<in> set (rx_match (Seq (Lit ''under'') (Seq (Rep Space 0 None)
                 (Seq (Group (Rep Digit 1 None)) ?R))) st0)"
    by (simp only: RX_UNDER_K_def seqs.simps)
  then obtain s1 where "m \<in> set (rx_match (Seq (Rep Space 0 None)
                 (Seq (Group (Rep Digit 1 None)) ?R)) s1)" by (rule rx_match_SeqE)
  then obtain s2 where "m \<in> set (rx_match (Seq (Group (Rep Digit 1 None)) ?R) s2)"
    by (rule rx_match_SeqE)
  then obtain s3 where s3: "s3 \<in> set (rx_match (Group (Rep Digit 1 None)) s2)"
    and m: "m \<in> set (rx_match ?R s3)" by (rule rx_match_SeqE)
  have "\<not> has_group ?R" by simp
  then have "cap m = cap s3" using m by (rule rx_match_cap)
  then show ?thesis using group_digits_cap [OF s3] by simp
qed

lemma is_digit_not_comma: "is_digit c \<Longrightarrow> c \<noteq> CHR '',''"
  by (auto simp: is_digit_def code_point_def)

lemma budget_any_cap:
  assumes "rx_search RX_BUDGET_ANY q = Some m"
  shows "\<exists>g. cap m = Some g \<and> all_digits (strip_commas g)"
proof -
  let ?A = "Alt (Lit ''under'') (Alt (Lit ''below'') (Alt (Lit ''less than'') (Lit ''<='')))"
  let ?G = "Seq (Cls Digit) (Rep DigitComma 0 None)"
  from assms obtain st0 where "m \<in> set (rx_match RX_BUDGET_ANY st0)" by (rule rx_searchE)
  then have "m \<in> set (rx_match (Seq ?A (Seq (Rep Space 0 None) (Group ?G))) st0)"
    by (simp only: RX_BUDGET_ANY_def seqs.simps alts.simps)
  then obtain s1 where "m \<in> set (rx_match (Seq (Rep Space 0 None) (Group ?G)) s1)"
    by (rule rx_match_SeqE)
  then obtain s2 where "m \<in> set (rx_match (Group ?G) s2)" by (rule rx_match_SeqE)
  then obtain s4 where s4: "s4 \<in> set (rx_match ?G s2)"
    and m: "m = s4\<lparr>cap := Some (take (length (rest s2) - length (rest s4)) (rest s2))\<rparr>"
    by (rule rx_match_GroupE)
  from s4 obtain s3 where s3: "s3 \<in> set (rx_match (Cls Digit) s2)"
    and s43: "s4 \<in> set (rx_match (Rep DigitComma 0 None) s3)" by (rule rx_match_SeqE)
  from s3 obtain x xs where x: "rest s2 = x # xs" "in_class Digit x" and s3': "s3 = advance 1 s2"
    by (rule rx_match_ClsE)
  from s43 obtain k where k: "k \<le> length (takeWhile (in_class DigitComma) (rest s3))"
    and s4': "s4 = advance k s3"
    by (rule rx_match_RepE)
  have r3: "rest s3 = xs" using s3' x by simp
  have k': "k \<le> length (takeWhile (in_class DigitComma) xs)" using k r3 by simp
  then have kl: "k \<le> length xs" using length_takeWhile_le [of "in_class DigitComma" xs] by linarith
  have "rest s4 = drop k xs" using s4' r3 by simp
  then have "length (rest s2) - length (rest s4) = Suc k" using x kl by simp
  then have c: "cap m = Some (x # take k xs)" using m x by simp
  have "list_all (in_class DigitComma) (take k xs)" using k' by (rule take_takeWhile_all)
  then have "list_all is_digit (strip_commas (take k xs))"
    by (auto simp: strip_commas_def list_all_iff)
  then have "all_digits (strip_commas (x # take k xs))"
    using x(2) is_digit_not_comma [of x] by (simp add: all_digits_def strip_commas_def)
  then show ?thesis using c by simp
qed

lemma storage_tb_cap:
  assumes "rx_search utils_RX_STORAGE_TB t = Some m"
  shows "\<exists>g. cap m = Some g \<and> g \<noteq> []"
proof -
  let ?O = "Opt (Seq (Lit ''.'') (Cls Digit))"
  let ?G = "Seq (Cls Digit) ?O"
  let ?R = "Seq (Rep Space 0 None) (Seq (Lit ''TB'') WordB)"
  from assms obtain st0 where "m \<in> set (rx_match utils_RX_STORAGE_TB st0)" by (rule rx_searchE)
  then have "m \<in> set (rx_match (Seq WordB (Seq (Group ?G) ?R)) st0)"
    by (simp only: utils_RX_STORAGE_TB_def seqs.simps)
  then obtain s1 where "m \<in> set (rx_match (Seq (Group ?G) ?R) s1)" by (rule rx_match_SeqE)
  then obtain s2 where s2: "s2 \<in> set (rx_match (Group ?G) s1)"
    and m: "m \<in> set (rx_match ?R s2)" by (rule rx_match_SeqE)
  have "\<not> has_group ?R" by simp
  then have cm: "cap m = cap s2" using m by (rule rx_match_cap)
  from s2 obtain s3 where s3: "s3 \<in> set (rx_match ?G s1)"
    and c2: "s2 = s3\<lparr>cap := Some (take (length (rest s1) - length (rest s3)) (rest s1))\<rparr>"
    by (rule rx_match_GroupE)
  from s3 obtain s4 where s4: "s4 \<in> set (rx_match (Cls Digit) s1)"
    and s34: "s3 \<in> set (rx_match ?O s4)" by (rule rx_match_SeqE)
  from s4 obtain x xs where x: "rest s1 = x # xs" and s4': "s4 = advance 1 s1"
    by (rule rx_match_ClsE)
  have "length (rest s3) \<le> length (rest s4)" using s34 by (rule rx_match_length)
  then have "length (rest s3) \<le> length xs" using x s4' by simp
  then have "take (length (rest s1) - length (rest s3)) (rest s1) \<noteq> []" using x by auto
  then show ?thesis using cm c2 by simp
qed



section \<open>Properties of the parsers\<close>

lemma map_of_set_str_other: "k' \<noteq> k \<Longrightarrow> map_of (set_str k v d) k' = map_of d k'"
  by (cases v) (simp_all add: update_conv')

lemma map_of_set_list_other: "k' \<noteq> k \<Longrightarrow> map_of (set_list k xs d) k' = map_of d k'"
  by (simp add: set_list_def update_conv')

lemma map_of_set_str_same:
  "map_of (set_str k v d) k = (if truthy v then map_option PStr v else map_of d k)"
  by (cases v) (simp_all add: update_conv')

text \<open>
  C10. When the TB pattern matches in the lower-cased title, the attribute map has no
  \<open>storage_gb\<close> key, whatever else the title holds, and it has a \<open>storage_tb\<close> key.
\<close>

theorem tb_precedence:
  assumes "rx_search utils_RX_STORAGE_TB (lower t) \<noteq> None"
  shows "map_of (parse_generic_attrs_from_title t) ''storage_gb'' = None \<and>
         map_of (parse_generic_attrs_from_title t) ''storage_tb'' \<noteq> None"
proof -
  from assms obtain m where m: "rx_search utils_RX_STORAGE_TB (lower t) = Some m" by blast
  then obtain g where g: "cap m = Some g" "g \<noteq> []" using storage_tb_cap by blast
  have f: "first utils_RX_STORAGE_TB (lower t) = Some g"
    using m g by (simp add: first_def first_group_def)
  show ?thesis
    unfolding parse_generic_attrs_from_title_def Let_def f
    using g(2) by (simp add: map_of_set_str_other map_of_set_list_other update_conv')
qed

theorem tb_precedence_witness:
  "rx_search utils_RX_STORAGE_TB (lower ''1TB SSD 256GB'') \<noteq> None \<and>
   first utils_RX_STORAGE_GB (lower ''1TB SSD 256GB'') = Some ''256'' \<and>
   map_of (parse_generic_attrs_from_title ''1TB SSD 256GB'') ''storage_gb'' = None"
proof -
  have h: "rx_search utils_RX_STORAGE_TB (lower ''1TB SSD 256GB'') \<noteq> None" by code_simp
  have g: "first utils_RX_STORAGE_GB (lower ''1TB SSD 256GB'') = Some ''256''" by code_simp
  show ?thesis using tb_precedence [OF h] h g by simp
qed

text \<open>
  C2 fails on the code: in the title \<open>16GB RAM, 512GB storage\<close> the storage pattern,
  two to four digits before \<open>GB\<close>, matches first at the RAM figure, so \<open>storage_gb\<close> is
  \<open>16\<close>, the RAM figure counted twice, and not \<open>512\<close>.
\<close>

theorem storage_double_counted:
  "map_of (parse_generic_attrs_from_title ''16GB RAM, 512GB storage'') ''ram_gb'' =
     Some (PStr ''16'') \<and>
   map_of (parse_generic_attrs_from_title ''16GB RAM, 512GB storage'') ''storage_gb'' =
     Some (PStr ''16'')"
  by code_simp

lemma parsed_budget_eq: "parsed_budget maxd query = parse_budget maxd (lower query)"
  by (simp add: parsed_budget_def parse_constraints_def Let_def get_budget_def split: sum.splits)

lemma keywords_eq:
  assumes "parse_constraints maxd query = Inr c"
  shows "get_keywords c = filter (\<lambda>w. str_in w (lower query)) ALL_TOKENS"
  using assms
  by (auto simp: parse_constraints_def Let_def get_keywords_def contains_any_def ALL_TOKENS_def
      split: sum.splits)

lemma distinct_tokens: "distinct ALL_TOKENS"
  by (simp add: ALL_TOKENS_def BRANDS_def COLORS_def MATERIALS_def BONUS_TOKENS_def)

text \<open>
  C9. The keyword list that \<open>parse_constraints\<close> returns holds no token twice, and it
  holds exactly the brand, color, material and bonus tokens that occur in the lower-cased
  query: each of them is in the list exactly once. The function returns whenever its
  budget block does not raise.
\<close>

theorem keywords_distinct:
  "(\<forall>c. parse_constraints maxd query = Inr c \<longrightarrow>
      distinct (get_keywords c) \<and>
      set (get_keywords c) = {w \<in> set ALL_TOKENS. str_in w (lower query)}) \<and>
   ((\<exists>b. parse_budget maxd (lower query) = Inr b) \<longrightarrow>
      (\<exists>c. parse_constraints maxd query = Inr c))"
proof (intro conjI allI impI)
  fix c
  assume "parse_constraints maxd query = Inr c"
  then have "get_keywords c = filter (\<lambda>w. str_in w (lower query)) ALL_TOKENS"
    by (rule keywords_eq)
  then show "distinct (get_keywords c)" using distinct_tokens by simp
  show "set (get_keywords c) = {w \<in> set ALL_TOKENS. str_in w (lower query)}"
    using \<open>get_keywords c = filter (\<lambda>w. str_in w (lower query)) ALL_TOKENS\<close> by auto
next
  assume "\<exists>b. parse_budget maxd (lower query) = Inr b"
  then show "\<exists>c. parse_constraints maxd query = Inr c"
    by (auto simp: parse_constraints_def Let_def)
qed

lemma parse_sample:
  "parse_constraints 0 ''red nike under 5k'' =
     Inr \<lparr>c_budget = Present (Some 5000), c_category = Present None,
          c_filters = Present [(''brand'', PList [''nike'']), (''color'', PList [''red''])],
          c_keywords = Present [''nike'', ''red'']\<rparr>"
  by code_simp

theorem keywords_distinct_witness:
  "parse_constraints 0 ''red nike under 5k'' =
     Inr \<lparr>c_budget = Present (Some 5000), c_category = Present None,
          c_filters = Present [(''brand'', PList [''nike'']), (''color'', PList [''red''])],
          c_keywords = Present [''nike'', ''red'']\<rparr> \<and>
   distinct [''nike'', ''red'']"
  using keywords_distinct [of 0 "''red nike under 5k''"] parse_sample
  by (simp add: get_keywords_def)

lemma bit_length_le: "n < 2 ^ k \<Longrightarrow> bit_length n \<le> k"
proof (induction k arbitrary: n)
  case 0
  then show ?case by (simp add: bit_length.simps)
next
  case (Suc k)
  then have "n div 2 < 2 ^ k" by simp
  then have "bit_length (n div 2) \<le> k" by (rule Suc.IH)
  then show ?case by (subst bit_length.simps) simp
qed

lemma round_double_exact: "n < 2 ^ 53 \<Longrightarrow> round_double n = Some n"
  using bit_length_le [of n 53] by (simp add: round_double_def Let_def)

lemma under_k_value:
  assumes "all_digits g" and "nat_of_digits g * 1000 < 2 ^ 53"
  shows "(case py_float_digits g of Inl e \<Rightarrow> Inl e
          | Inr x \<Rightarrow> (case int_of_float (float_times x 1000) of Inl e \<Rightarrow> Inl e
                       | Inr b \<Rightarrow> Inr (Some b))) = Inr (Some (int (nat_of_digits g) * 1000))"
proof -
  have "nat_of_digits g < 2 ^ 53" using assms(2) by simp
  then have "round_double (nat_of_digits g) = Some (nat_of_digits g)" by (rule round_double_exact)
  moreover have "round_double (nat_of_digits g * 1000) = Some (nat_of_digits g * 1000)"
    using assms(2) by (rule round_double_exact)
  ultimately show ?thesis
    using assms(1) by (simp add: py_float_digits_def float_times_def int_of_float_def)
qed

lemma under_5k_search:
  "rx_search RX_UNDER_K (lower ''under 5k'') =
     Some \<lparr>prev = Some CHR ''k'', rest = [], cap = Some ''5''\<rparr>"
  by code_simp

lemma under_4500_search:
  "rx_search RX_UNDER_K (lower ''under 4,500'') = None"
  "rx_search RX_BUDGET_ANY (lower ''under 4,500'') =
     Some \<lparr>prev = Some CHR ''0'', rest = [], cap = Some ''4,500''\<rparr>"
  by code_simp+

lemma no_budget_search:
  "rx_search RX_UNDER_K (lower ''red nike'') = None"
  "rx_search RX_BUDGET_ANY (lower ''red nike'') = None"
  by code_simp+

lemma digits_5: "nat_of_digits ''5'' = 5"
  by code_simp

lemma all_digits_5: "all_digits ''5''"
  by code_simp

lemma all_digits_4500: "all_digits ''4500''"
  by code_simp

lemma digits_4500:
  "strip_commas ''4,500'' = ''4500''" "nat_of_digits ''4500'' = 4500"
  by code_simp+

text \<open>
  C8, as stated, fails: the query \<open>bag under 5kg\<close> contains \<open>under 5k\<close>, but the first
  pattern requires a word boundary after the \<open>k\<close>, so the second pattern applies and the
  budget is 5, not 5000.
\<close>

theorem bag_under_5kg_counterexample:
  "str_in ''under 5k'' ''bag under 5kg'' \<and> parsed_budget 0 ''bag under 5kg'' = Inr (Some 5)"
proof -
  have "parse_budget 0 (lower ''bag under 5kg'') = Inr (Some 5)" by code_simp
  moreover have "str_in ''under 5k'' ''bag under 5kg''" by code_simp
  ultimately show ?thesis by (simp only: parsed_budget_eq simp_thms)
qed

text \<open>
  C8, amended. The pattern \<open>under N k\<close> is tried first; when it matches, its group is a
  string of digits \<open>N\<close> and the budget is \<open>N * 1000\<close>, provided \<open>N * 1000 < 2^53\<close> (the
  product is computed in floating point). Otherwise, when the second pattern matches, its
  group without the commas is a string of digits and the budget is its value, provided the
  interpreter's limit on digit strings allows the conversion. When neither matches, there
  is no budget. The queries \<open>under 5k\<close> and \<open>under 4,500\<close> themselves give 5000 and 4500.
\<close>

theorem budget_rules:
  "(\<forall>m. rx_search RX_UNDER_K (lower query) = Some m \<longrightarrow>
      (\<exists>g. cap m = Some g \<and> all_digits g \<and>
         (nat_of_digits g * 1000 < 2 ^ 53 \<longrightarrow>
            parsed_budget maxd query = Inr (Some (int (nat_of_digits g) * 1000))))) \<and>
   (\<forall>n. rx_search RX_UNDER_K (lower query) = None \<and>
        rx_search RX_BUDGET_ANY (lower query) = Some n \<longrightarrow>
      (\<exists>g. cap n = Some g \<and> all_digits (strip_commas g) \<and>
         (maxd = 0 \<or> length (strip_commas g) \<le> maxd \<longrightarrow>
            parsed_budget maxd query = Inr (Some (int (nat_of_digits (strip_commas g))))))) \<and>
   (rx_search RX_UNDER_K (lower query) = None \<and> rx_search RX_BUDGET_ANY (lower query) = None \<longrightarrow>
      parsed_budget maxd query = Inr None) \<and>
   parsed_budget maxd ''under 5k'' = Inr (Some 5000) \<and>
   (maxd = 0 \<or> 4 \<le> maxd \<longrightarrow> parsed_budget maxd ''under 4,500'' = Inr (Some 4500))"
proof (intro conjI allI impI)
  fix m
  assume m: "rx_search RX_UNDER_K (lower query) = Some m"
  then obtain g where g: "cap m = Some g" "all_digits g" using under_k_cap by blast
  have "nat_of_digits g * 1000 < 2 ^ 53 \<longrightarrow>
          parsed_budget maxd query = Inr (Some (int (nat_of_digits g) * 1000))"
    using under_k_value [OF g(2)] m g(1) by (simp add: parsed_budget_eq parse_budget_def)
  then show "\<exists>g. cap m = Some g \<and> all_digits g \<and>
         (nat_of_digits g * 1000 < 2 ^ 53 \<longrightarrow>
            parsed_budget maxd query = Inr (Some (int (nat_of_digits g) * 1000)))"
    using g by blast
next
  fix n
  assume h: "rx_search RX_UNDER_K (lower query) = None \<and>
        rx_search RX_BUDGET_ANY (lower query) = Some n"
  then obtain g where g: "cap n = Some g" "all_digits (strip_commas g)"
    using budget_any_cap by blast
  have "maxd = 0 \<or> length (strip_commas g) \<le> maxd \<longrightarrow>
            parsed_budget maxd query = Inr (Some (int (nat_of_digits (strip_commas g))))"
    using h g by (auto simp: parsed_budget_eq parse_budget_def py_int_def)
  then show "\<exists>g. cap n = Some g \<and> all_digits (strip_commas g) \<and>
         (maxd = 0 \<or> length (strip_commas g) \<le> maxd \<longrightarrow>
            parsed_budget maxd query = Inr (Some (int (nat_of_digits (strip_commas g)))))"
    using g by blast
next
  assume "rx_search RX_UNDER_K (lower query) = None \<and> rx_search RX_BUDGET_ANY (lower query) = None"
  then show "parsed_budget maxd query = Inr None"
    by (simp add: parsed_budget_eq parse_budget_def)
next
  have "nat_of_digits ''5'' * 1000 < 2 ^ 53" by (simp add: digits_5)
  then show "parsed_budget maxd ''under 5k'' = Inr (Some 5000)"
    using under_k_value [of "''5''"] under_5k_search
    by (simp add: parsed_budget_eq parse_budget_def digits_5 all_digits_5)
next
  assume "maxd = 0 \<or> 4 \<le> maxd"
  then show "parsed_budget maxd ''under 4,500'' = Inr (Some 4500)"
    using under_4500_search
    by (auto simp: parsed_budget_eq parse_budget_def py_int_def digits_4500 all_digits_4500)
qed


theorem budget_rules_witness:
  "parsed_budget 0 ''under 5k'' = Inr (Some 5000) \<and>
   parsed_budget 0 ''under 4,500'' = Inr (Some 4500) \<and>
   parsed_budget 0 ''red nike'' = Inr None"
proof -
  have a: "parsed_budget 0 ''under 5k'' = Inr (Some 5000)"
    using budget_rules [of "''under 5k''" 0] under_5k_search by (simp add: digits_5)
  have b: "parsed_budget 0 ''under 4,500'' = Inr (Some 4500)"
    using budget_rules [of "''under 4,500''" 0] under_4500_search by (simp add: digits_4500)
  have c: "parsed_budget 0 ''red nike'' = Inr None"
    using budget_rules [of "''red nike''" 0] no_budget_search by simp
  show ?thesis using a b c by simp
qed


section \<open>The parser node\<close>

text \<open>
  C1 fails on the code: the dictionary that \<open>run_pipeline\<close> seeds always holds the keys
  \<open>budget\<close> and \<open>keywords\<close>, so it is never empty, and the parser node returns it as it is
  without parsing the query. The caller's category is kept, but budget, filters and
  keywords are not those of \<open>parse_constraints\<close>.
\<close>

theorem parser_node_keeps_seed:
  "parser_node 0 (init_state ''red nike under 5k'' None [''amazon'', ''flipkart''] 6 (Some ''fashion'')) =
     Inr (init_state ''red nike under 5k'' None [''amazon'', ''flipkart''] 6 (Some ''fashion'')) \<and>
   s_constraints (init_state ''red nike under 5k'' None [''amazon'', ''flipkart''] 6 (Some ''fashion'')) =
     Some \<lparr>c_budget = Present None, c_category = Present (Some ''fashion''),
           c_filters = Absent, c_keywords = Present []\<rparr> \<and>
   parse_constraints 0 ''red nike under 5k'' =
     Inr \<lparr>c_budget = Present (Some 5000), c_category = Present None,
          c_filters = Present [(''brand'', PList [''nike'']), (''color'', PList [''red''])],
          c_keywords = Present [''nike'', ''red'']\<rparr>"
  using parse_sample by (simp add: parser_node_def init_state_def dict_empty_def)


end
